theory Spec2Isabelle
  imports Complex_Main
begin

section \<open>JavaScript values\<close>

text \<open>
  Response bodies have the TypeScript type \<open>unknown\<close>: whatever \<open>response.json()\<close>
  produced. They are modelled as JSON values, extended with \<open>undefined\<close>. An object is
  the list of its own properties; the first binding of a key is the property's value.
  Numbers are carried as reals: the code under study only passes them on or compares
  them.
\<close>

datatype json =
    JUndefined
  | JNull
  | JBool bool
  | JNum real
  | JStr string
  | JArr "json list"
  | JObj "(string \<times> json) list"

text \<open>
  \<open>get_prop v k\<close> is the optional-chaining read \<open>v?.k\<close> for the property names the
  program uses (none of them is a property of a string, number, boolean or array):
  \<open>undefined\<close> unless \<open>v\<close> is an object that has the property.
\<close>

fun get_prop :: "json \<Rightarrow> string \<Rightarrow> json" where
  "get_prop (JObj kvs) k = (case map_of kvs k of None \<Rightarrow> JUndefined | Some v \<Rightarrow> v)"
| "get_prop _ k = JUndefined"

definition nullish :: "json \<Rightarrow> bool" where
  "nullish v \<longleftrightarrow> v = JUndefined \<or> v = JNull"

text \<open>The operator \<open>a ?? b\<close>.\<close>

definition coalesce :: "json \<Rightarrow> json \<Rightarrow> json" where
  "coalesce a b = (if nullish a then b else a)"

text \<open>A parameter default \<open>(x = d)\<close>: it applies to \<open>undefined\<close> only.\<close>

definition default_arg :: "json \<Rightarrow> json \<Rightarrow> json" where
  "default_arg a d = (if a = JUndefined then d else a)"

subsection \<open>Decimal rendering of an integer\<close>

definition digit :: "nat \<Rightarrow> char" where
  "digit d = ''0123456789'' ! (d mod 10)"

function show_nat :: "nat \<Rightarrow> string" where
  "show_nat n = (if n < 10 then [digit n] else show_nat (n div 10) @ [digit (n mod 10)])"
  by pat_completeness auto
termination
  by (relation "measure id") auto

declare show_nat.simps [simp del]

definition show_int :: "int \<Rightarrow> string" where
  "show_int i = (if i < 0 then CHR ''-'' # show_nat (nat (- i)) else show_nat (nat i))"

section \<open>The error classes (errors.ts)\<close>

datatype error_class =
    LeanvoxError
  | InvalidRequestError
  | AuthenticationError
  | InsufficientBalanceError
  | NotFoundError
  | RateLimitError
  | ServerError
  | StreamingFormatError

text \<open>
  One record for every instance of \<open>LeanvoxError\<close> and its subclasses. \<open>cls\<close> is the
  class of the instance (its \<open>name\<close>). \<open>message\<close> is the value handed to the
  \<open>Error\<close> constructor, which stores its string form: for a string, the string itself.
  The fields a class does not have are \<open>undefined\<close>.
\<close>

record leanvox_error =
  cls :: error_class
  message :: json
  code :: json
  statusCode :: int
  body :: json
  balanceCents :: json
  retryAfter :: json

definition new_LeanvoxError :: "json \<Rightarrow> json \<Rightarrow> int \<Rightarrow> json \<Rightarrow> leanvox_error" where
  "new_LeanvoxError msg c st b =
     \<lparr>cls = LeanvoxError, message = msg, code = c, statusCode = st, body = b,
      balanceCents = JUndefined, retryAfter = JUndefined\<rparr>"

definition new_InvalidRequestError :: "json \<Rightarrow> json \<Rightarrow> json \<Rightarrow> leanvox_error" where
  "new_InvalidRequestError msg c b =
     (new_LeanvoxError msg (default_arg c (JStr ''invalid_request'')) 400 b)
       \<lparr>cls := InvalidRequestError\<rparr>"

definition new_AuthenticationError :: "json \<Rightarrow> json \<Rightarrow> json \<Rightarrow> leanvox_error" where
  "new_AuthenticationError msg c b =
     (new_LeanvoxError msg (default_arg c (JStr ''invalid_api_key'')) 401 b)
       \<lparr>cls := AuthenticationError\<rparr>"

definition new_InsufficientBalanceError ::
  "json \<Rightarrow> json \<Rightarrow> json \<Rightarrow> json \<Rightarrow> leanvox_error" where
  "new_InsufficientBalanceError msg c b bal =
     (new_LeanvoxError msg (default_arg c (JStr ''insufficient_balance'')) 402 b)
       \<lparr>cls := InsufficientBalanceError, balanceCents := bal\<rparr>"

definition new_NotFoundError :: "json \<Rightarrow> json \<Rightarrow> json \<Rightarrow> leanvox_error" where
  "new_NotFoundError msg c b =
     (new_LeanvoxError msg (default_arg c (JStr ''not_found'')) 404 b)
       \<lparr>cls := NotFoundError\<rparr>"

definition new_RateLimitError ::
  "json \<Rightarrow> json \<Rightarrow> json \<Rightarrow> json \<Rightarrow> leanvox_error" where
  "new_RateLimitError msg c b ra =
     (new_LeanvoxError msg (default_arg c (JStr ''rate_limit_exceeded'')) 429 b)
       \<lparr>cls := RateLimitError, retryAfter := ra\<rparr>"

definition new_ServerError :: "json \<Rightarrow> json \<Rightarrow> json \<Rightarrow> leanvox_error" where
  "new_ServerError msg c b =
     (new_LeanvoxError msg (default_arg c (JStr ''server_error'')) 500 b)
       \<lparr>cls := ServerError\<rparr>"

definition new_StreamingFormatError :: "json \<Rightarrow> leanvox_error" where
  "new_StreamingFormatError msg =
     (new_InvalidRequestError
        (default_arg msg (JStr ''Streaming is only supported for MP3 format''))
        (JStr ''streaming_format_error'') JUndefined)
       \<lparr>cls := StreamingFormatError\<rparr>"

definition STATUS_MAP :: "int \<rightharpoonup> (json \<Rightarrow> json \<Rightarrow> json \<Rightarrow> leanvox_error)" where
  "STATUS_MAP =
     [400 \<mapsto> new_InvalidRequestError,
      401 \<mapsto> new_AuthenticationError,
      404 \<mapsto> new_NotFoundError,
      500 \<mapsto> new_ServerError]"

text \<open>
  \<open>raiseForStatus\<close> never returns: the model returns the error it throws.
\<close>

definition raiseForStatus :: "int \<Rightarrow> json \<Rightarrow> leanvox_error" where
  "raiseForStatus status b =
     (let errData = get_prop b ''error'';
          msg = coalesce (get_prop errData ''message'')
                  (JStr (''API error (status '' @ show_int status @ '')''));
          c = coalesce (get_prop errData ''code'') (JStr ''unknown'')
      in if status = 402 then
           new_InsufficientBalanceError msg c b (get_prop errData ''balance_cents'')
         else if status = 429 then
           new_RateLimitError msg c b (get_prop errData ''retry_after'')
         else (case STATUS_MAP status of
                 Some ErrorClass \<Rightarrow> ErrorClass msg c b
               | None \<Rightarrow> new_LeanvoxError msg c status b))"

section \<open>The HTTP client (http.ts)\<close>

definition RETRYABLE_STATUS_CODES :: "int set" where
  "RETRYABLE_STATUS_CODES = {429, 500, 502, 503, 504}"

definition BACKOFF_SCHEDULE :: "int list" where
  "BACKOFF_SCHEDULE = [1000, 2000, 4000]"

text \<open>
  \<open>timeout\<close> is in seconds and \<open>maxRetries\<close> is a count; both are JavaScript numbers,
  modelled at their whole values. A negative \<open>maxRetries\<close> is representable: the
  constructor does not reject it.
\<close>

record HTTPClient =
  baseUrl :: string
  apiKey :: string
  timeout :: int
  maxRetries :: int

text \<open>
  The argument of \<open>sleep\<close>, in milliseconds. \<open>RetryAfterMs s\<close> stands for
  \<open>parseFloat(s) * 1000\<close>, a floating-point value that is kept symbolic;
  \<open>BackoffMs n\<close> is the number \<open>n\<close>.
\<close>

datatype delay = RetryAfterMs string | BackoffMs int

text \<open>\<open>BACKOFF_SCHEDULE[attempt] ?? BACKOFF_SCHEDULE[BACKOFF_SCHEDULE.length - 1]\<close>\<close>

definition backoff :: "nat \<Rightarrow> int" where
  "backoff attempt =
     (if attempt < length BACKOFF_SCHEDULE then BACKOFF_SCHEDULE ! attempt
      else BACKOFF_SCHEDULE ! (length BACKOFF_SCHEDULE - 1))"

subsection \<open>The network\<close>

datatype payload = NoBody | JsonBody json | FormData "(string \<times> string) list"

text \<open>
  What one call of \<open>fetch\<close> is given. A path is the list of the parts of its template
  literal (\<open>`/v1/jobs/${jobId}`\<close> has two). \<open>req_timeoutMs\<close> is the delay after which the
  attempt's \<open>AbortController\<close> aborts it. The URL's base and the headers are the same
  for every attempt of a client and are left out.
\<close>

record fetch_request =
  req_method :: string
  req_path :: "json list"
  req_payload :: payload
  req_timeoutMs :: int

text \<open>
  A response: \<open>headers r name\<close> is \<open>response.headers.get(name)\<close>, \<open>json_result\<close> is what
  \<open>response.json()\<close> does (\<open>Inl\<close>: it throws, with that message), \<open>stream\<close> is
  \<open>response.body\<close> (\<open>None\<close> for \<open>null\<close>).
\<close>

record response =
  status :: int
  statusText :: string
  headers :: "string \<rightharpoonup> string"
  json_result :: "string + json"
  stream :: "string option"

text \<open>
  \<open>fetch\<close> rejects (connection fault, or abort at the deadline), with a description
  of the fault, or resolves with a response.
\<close>

datatype outcome = Rejected string | Resolved response

text \<open>
  The environment: the outcome of the attempt of a given index of one call, for the
  request that it sends.
\<close>

type_synonym network = "nat \<Rightarrow> fetch_request \<Rightarrow> outcome"

text \<open>\<open>response.ok\<close>, as the Fetch standard defines it.\<close>

definition ok :: "response \<Rightarrow> bool" where
  "ok r \<longleftrightarrow> 200 \<le> status r \<and> status r \<le> 299"

text \<open>
  A scripted network, as the test suite's mocks are: the attempts get the listed
  outcomes in order, and every later attempt gets \<open>dflt\<close>.
\<close>

definition scripted :: "outcome list \<Rightarrow> outcome \<Rightarrow> network" where
  "scripted outs dflt i rq = (if i < length outs then outs ! i else dflt)"

subsection \<open>One iteration of the retry loop\<close>

text \<open>
  An iteration ends by \<open>return\<close>, by \<open>throw\<close>, or by \<open>sleep\<close> followed by
  \<open>continue\<close>.
\<close>

datatype 'a step = Return 'a | Throw leanvox_error | Retry delay

text \<open>
  The \<open>catch (err)\<close> block, for an \<open>err\<close> that is not a \<open>LeanvoxError\<close>; \<open>msg\<close> is
  \<open>err instanceof Error ? err.message : String(err)\<close>.
\<close>

definition network_error :: "string \<Rightarrow> leanvox_error" where
  "network_error msg =
     new_LeanvoxError (JStr (''Network error: '' @ msg)) (JStr ''network_error'') 0 JUndefined"

definition on_catch :: "HTTPClient \<Rightarrow> nat \<Rightarrow> string \<Rightarrow> 'a step" where
  "on_catch c attempt msg =
     (if int attempt < maxRetries c then Retry (BackoffMs (backoff attempt))
      else Throw (network_error msg))"

text \<open>
  The body handed to \<open>raiseForStatus\<close>: the parsed body, or
  \<open>{ error: { message: response.statusText } }\<close> when parsing throws.
\<close>

definition error_body :: "response \<Rightarrow> json" where
  "error_body r =
     (case json_result r of
        Inr v \<Rightarrow> v
      | Inl _ \<Rightarrow> JObj [(''error'', JObj [(''message'', JStr (statusText r))])])"

text \<open>
  The delay of \<open>request\<close> and \<open>requestStream\<close> after a retryable response: the header
  when it is a non-empty string (the test \<open>retryAfter ? \<dots> : \<dots>\<close>).
\<close>

definition header_delay :: "response \<Rightarrow> nat \<Rightarrow> delay" where
  "header_delay r attempt =
     (case headers r ''Retry-After'' of
        Some ra \<Rightarrow> if ra \<noteq> [] then RetryAfterMs ra else BackoffMs (backoff attempt)
      | None \<Rightarrow> BackoffMs (backoff attempt))"

definition request_attempt :: "HTTPClient \<Rightarrow> nat \<Rightarrow> outcome \<Rightarrow> json step" where
  "request_attempt c attempt out =
     (case out of
        Rejected msg \<Rightarrow> on_catch c attempt msg
      | Resolved r \<Rightarrow>
          if ok r then
            (if status r = 204 then Return JUndefined
             else (case json_result r of
                     Inr v \<Rightarrow> Return v
                   | Inl msg \<Rightarrow> on_catch c attempt msg))
          else if status r \<in> RETRYABLE_STATUS_CODES \<and> int attempt < maxRetries c then
            Retry (header_delay r attempt)
          else Throw (raiseForStatus (status r) (error_body r)))"

definition requestStream_attempt ::
  "HTTPClient \<Rightarrow> nat \<Rightarrow> outcome \<Rightarrow> (string \<times> (string \<rightharpoonup> string)) step" where
  "requestStream_attempt c attempt out =
     (case out of
        Rejected msg \<Rightarrow> on_catch c attempt msg
      | Resolved r \<Rightarrow>
          (case (if ok r then stream r else None) of
             Some s \<Rightarrow> Return (s, headers r)
           | None \<Rightarrow>
               if status r \<in> RETRYABLE_STATUS_CODES \<and> int attempt < maxRetries c then
                 Retry (header_delay r attempt)
               else Throw (raiseForStatus (status r) (error_body r))))"

definition upload_attempt :: "HTTPClient \<Rightarrow> nat \<Rightarrow> outcome \<Rightarrow> json step" where
  "upload_attempt c attempt out =
     (case out of
        Rejected msg \<Rightarrow> on_catch c attempt msg
      | Resolved r \<Rightarrow>
          if ok r then
            (case json_result r of
               Inr v \<Rightarrow> Return v
             | Inl msg \<Rightarrow> on_catch c attempt msg)
          else if status r \<in> RETRYABLE_STATUS_CODES \<and> int attempt < maxRetries c then
            Retry (BackoffMs (backoff attempt))
          else Throw (raiseForStatus (status r) (error_body r)))"

subsection \<open>The retry loop\<close>

text \<open>
  What a call did, in order: the attempts it sent and the sleeps between them.
\<close>

datatype event = Fetch fetch_request | Sleep delay

text \<open>
  \<open>for (let attempt = 0; attempt <= this.maxRetries; attempt++) { \<dots> }\<close> followed by
  \<open>throw new LeanvoxError("Max retries exceeded", "max_retries", 0)\<close>. The three
  methods have this same loop around their own iteration, which is the parameter
  \<open>iter\<close>.
\<close>

definition max_retries_error :: leanvox_error where
  "max_retries_error =
     new_LeanvoxError (JStr ''Max retries exceeded'') (JStr ''max_retries'') 0 JUndefined"

function run_attempts ::
  "(nat \<Rightarrow> outcome \<Rightarrow> 'a step) \<Rightarrow> int \<Rightarrow> network \<Rightarrow> fetch_request \<Rightarrow> nat
     \<Rightarrow> (leanvox_error + 'a) \<times> event list" where
  "run_attempts iter maxR net rq attempt =
     (if int attempt \<le> maxR then
        (case iter attempt (net attempt rq) of
           Return v \<Rightarrow> (Inr v, [Fetch rq])
         | Throw e \<Rightarrow> (Inl e, [Fetch rq])
         | Retry d \<Rightarrow>
             (case run_attempts iter maxR net rq (Suc attempt) of
                (res, evs) \<Rightarrow> (res, Fetch rq # Sleep d # evs)))
      else (Inl max_retries_error, []))"
  by pat_completeness auto
termination
  by (relation "measure (\<lambda>(iter, maxR, net, rq, attempt). nat (maxR + 1 - int attempt))")
     auto

declare run_attempts.simps [simp del]

definition json_payload :: "json option \<Rightarrow> payload" where
  "json_payload b = (case b of None \<Rightarrow> NoBody | Some v \<Rightarrow> JsonBody v)"

text \<open>
  The three methods. \<open>b\<close> is \<open>options?.body\<close> and \<open>t\<close> is the \<open>timeoutMs\<close> override
  (\<open>None\<close> for \<open>undefined\<close>). Each builds, before its loop, the request that every
  attempt sends.
\<close>

definition unary_fetch ::
  "HTTPClient \<Rightarrow> string \<Rightarrow> json list \<Rightarrow> json option \<Rightarrow> int option \<Rightarrow> fetch_request" where
  "unary_fetch c m p b t =
     \<lparr>req_method = m, req_path = p, req_payload = json_payload b,
      req_timeoutMs = (case t of Some ms \<Rightarrow> ms | None \<Rightarrow> timeout c * 1000)\<rparr>"

definition request ::
  "HTTPClient \<Rightarrow> network \<Rightarrow> string \<Rightarrow> json list \<Rightarrow> json option \<Rightarrow> int option
     \<Rightarrow> (leanvox_error + json) \<times> event list" where
  "request c net m p b t =
     run_attempts (request_attempt c) (maxRetries c) net (unary_fetch c m p b t) 0"

definition stream_fetch ::
  "HTTPClient \<Rightarrow> string \<Rightarrow> json list \<Rightarrow> json option \<Rightarrow> int option \<Rightarrow> fetch_request" where
  "stream_fetch c m p b t =
     \<lparr>req_method = m, req_path = p, req_payload = json_payload b,
      req_timeoutMs = (case t of Some ms \<Rightarrow> ms | None \<Rightarrow> 120000)\<rparr>"

definition requestStream ::
  "HTTPClient \<Rightarrow> network \<Rightarrow> string \<Rightarrow> json list \<Rightarrow> json option \<Rightarrow> int option
     \<Rightarrow> (leanvox_error + string \<times> (string \<rightharpoonup> string)) \<times> event list" where
  "requestStream c net m p b t =
     run_attempts (requestStream_attempt c) (maxRetries c) net (stream_fetch c m p b t) 0"

definition upload_fetch ::
  "HTTPClient \<Rightarrow> json list \<Rightarrow> (string \<times> string) list \<Rightarrow> int option \<Rightarrow> fetch_request" where
  "upload_fetch c p formData t =
     \<lparr>req_method = ''POST'', req_path = p, req_payload = FormData formData,
      req_timeoutMs = (case t of Some ms \<Rightarrow> ms | None \<Rightarrow> timeout c * 1000)\<rparr>"

definition upload ::
  "HTTPClient \<Rightarrow> network \<Rightarrow> json list \<Rightarrow> (string \<times> string) list \<Rightarrow> int option
     \<Rightarrow> (leanvox_error + json) \<times> event list" where
  "upload c net p formData t =
     run_attempts (upload_attempt c) (maxRetries c) net (upload_fetch c p formData t) 0"

text \<open>The number of network attempts of a call.\<close>

fun is_Fetch :: "event \<Rightarrow> bool" where
  "is_Fetch (Fetch _) = True"
| "is_Fetch (Sleep _) = False"

definition attempts :: "event list \<Rightarrow> nat" where
  "attempts evs = length (filter is_Fetch evs)"

fun sleeps :: "event list \<Rightarrow> delay list" where
  "sleeps [] = []"
| "sleeps (Fetch _ # evs) = sleeps evs"
| "sleeps (Sleep d # evs) = d # sleeps evs"

section \<open>The client (client.ts)\<close>

datatype exn = Leanvox leanvox_error | TypeError

text \<open>
  A \<open>Job\<close> is built by \<open>mapJob\<close> from a response body, so each field holds whatever
  the body had under the property, or \<open>undefined\<close>.
\<close>

record Job =
  job_id :: json
  job_status :: json
  job_estimatedSeconds :: json
  job_audioUrl :: json
  job_error :: json

text \<open>Reading a property of \<open>undefined\<close> or \<open>null\<close> is a \<open>TypeError\<close>.\<close>

definition mapJob :: "json \<Rightarrow> exn + Job" where
  "mapJob raw =
     (if nullish raw then Inl TypeError
      else Inr \<lparr>job_id = get_prop raw ''id'',
                job_status = get_prop raw ''status'',
                job_estimatedSeconds = get_prop raw ''estimated_seconds'',
                job_audioUrl = get_prop raw ''audio_url'',
                job_error = get_prop raw ''error''\<rparr>)"

text \<open>
  The caller's options, at their declared types; an optional property is \<open>None\<close> when
  it is \<open>undefined\<close>. A string is the list of its code units.
\<close>

record GenerateOptions =
  opt_text :: string
  opt_model :: "string option"
  opt_voice :: "string option"
  opt_language :: "string option"
  opt_format :: "string option"
  opt_speed :: "real option"
  opt_exaggeration :: "real option"
  opt_voiceInstructions :: "string option"
  opt_webhookUrl :: "string option"

text \<open>Truthiness of an optional string: defined and not empty.\<close>

definition truthy :: "string option \<Rightarrow> bool" where
  "truthy s \<longleftrightarrow> (case s of None \<Rightarrow> False | Some v \<Rightarrow> v \<noteq> [])"

text \<open>\<open>toLowerCase\<close>, on the letters A to Z.\<close>

definition toLowerCase :: "string \<Rightarrow> string" where
  "toLowerCase s =
     map (\<lambda>ch. if 65 \<le> (of_char ch :: nat) \<and> (of_char ch :: nat) \<le> 90
               then char_of (of_char ch + 32 :: nat) else ch) s"

text \<open>The double-quote character, for the messages that contain one.\<close>

definition dq :: string where
  "dq = [CHR 0x22]"

definition voice_instructions_required :: string where
  "voice_instructions_required =
     ''voice_instructions is required when model is '' @ dq @ ''max'' @ dq @ ''. '' @
     ''Example: voiceInstructions: '' @ dq @ ''A warm, confident female narrator'' @ dq"

definition invalid :: "string \<Rightarrow> leanvox_error" where
  "invalid msg = new_InvalidRequestError (JStr msg) JUndefined JUndefined"

definition model_or_standard :: "GenerateOptions \<Rightarrow> string" where
  "model_or_standard options = (case opt_model options of None \<Rightarrow> ''standard'' | Some m \<Rightarrow> m)"

text \<open>\<open>validateGenerateParams\<close>: \<open>Some e\<close> when it throws \<open>e\<close>.\<close>

definition validateGenerateParams :: "GenerateOptions \<Rightarrow> leanvox_error option" where
  "validateGenerateParams options =
     (let m = model_or_standard options in
      if opt_text options = [] then
        Some (invalid ''text is required and cannot be empty'')
      else if length (opt_text options) > 10000 then
        Some (invalid ''text must be 10,000 characters or fewer'')
      else if m \<noteq> ''standard'' \<and> m \<noteq> ''pro'' \<and> m \<noteq> ''max'' then
        Some (invalid (''model must be '' @ dq @ ''standard'' @ dq @ '', '' @ dq @ ''pro'' @ dq @
                       '', or '' @ dq @ ''max'' @ dq))
      else if (case opt_speed options of None \<Rightarrow> False | Some sp \<Rightarrow> sp < 0.5 \<or> sp > 2.0) then
        Some (invalid ''speed must be between 0.5 and 2.0'')
      else if (case opt_exaggeration options of None \<Rightarrow> False
               | Some ex \<Rightarrow> ex \<noteq> 0.5 \<and> m = ''standard'') then
        Some (invalid ''exaggeration is only supported on the pro model'')
      else (case opt_format options of
              None \<Rightarrow> None
            | Some f \<Rightarrow>
                if toLowerCase f \<noteq> ''mp3'' \<and> toLowerCase f \<noteq> ''wav'' then
                  Some (invalid (''format must be '' @ dq @ ''mp3'' @ dq @ '' or '' @ dq @ ''wav'' @ dq))
                else None))"

text \<open>
  \<open>buildGenerateBody\<close>: the body as the list of its properties in the order they are
  set, or the error thrown.
\<close>

definition body_tail :: "GenerateOptions \<Rightarrow> string \<Rightarrow> (string \<times> json) list" where
  "body_tail options m =
     (if truthy (opt_language options)
        then [(''language'', JStr (the (opt_language options)))] else [])
     @ (if truthy (opt_format options)
        then [(''format'', JStr (the (opt_format options)))] else [])
     @ (case opt_speed options of None \<Rightarrow> [] | Some sp \<Rightarrow> [(''speed'', JNum sp)])
     @ (case opt_exaggeration options of
          None \<Rightarrow> []
        | Some ex \<Rightarrow> if m = ''pro'' then [(''exaggeration'', JNum ex)] else [])"

definition buildGenerateBody :: "GenerateOptions \<Rightarrow> leanvox_error + (string \<times> json) list" where
  "buildGenerateBody options =
     (let m = model_or_standard options;
          body0 = [(''text'', JStr (opt_text options)), (''model'', JStr m)]
      in if m = ''max'' then
           (case opt_voiceInstructions options of
              None \<Rightarrow>
                Inl (invalid voice_instructions_required)
            | Some vi \<Rightarrow>
                if vi = [] then
                  Inl (invalid voice_instructions_required)
                else if length vi > 300 then
                  Inl (invalid (''voiceInstructions must be 300 characters or less (got '' @
                         show_nat (length vi) @ '')''))
                else if truthy (opt_voice options) then
                  Inl (invalid ''voice and voiceInstructions are mutually exclusive'')
                else Inr (body0 @ [(''voice_instructions'', JStr vi)] @ body_tail options m))
         else if truthy (opt_voiceInstructions options) then
           Inl (invalid (''voiceInstructions is only supported with model '' @ dq @ ''max'' @ dq @
                  '', not '' @ dq @ m @ dq))
         else Inr (body0
                   @ (if truthy (opt_voice options)
                        then [(''voice'', JStr (the (opt_voice options)))] else [])
                   @ body_tail options m))"

text \<open>
  The client sends every call through one \<open>HTTPClient\<close>. Its calls follow one another,
  so the attempts of a call are those of the network from the number \<open>k\<close> of attempts
  already made; a call returns the number reached.
\<close>

definition http_request ::
  "HTTPClient \<Rightarrow> network \<Rightarrow> nat \<Rightarrow> string \<Rightarrow> json list \<Rightarrow> json option
     \<Rightarrow> (leanvox_error + json) \<times> nat" where
  "http_request c net k m p b =
     (case request c (\<lambda>i. net (k + i)) m p b None of
        (res, evs) \<Rightarrow> (res, k + attempts evs))"

definition generateAsync ::
  "HTTPClient \<Rightarrow> network \<Rightarrow> nat \<Rightarrow> GenerateOptions \<Rightarrow> (exn + Job) \<times> nat" where
  "generateAsync c net k options =
     (case validateGenerateParams options of
        Some e \<Rightarrow> (Inl (Leanvox e), k)
      | None \<Rightarrow>
          (case buildGenerateBody options of
             Inl e \<Rightarrow> (Inl (Leanvox e), k)
           | Inr body0 \<Rightarrow>
               (let body1 = body0 @ (if truthy (opt_webhookUrl options)
                          then [(''webhook_url'', JStr (the (opt_webhookUrl options)))] else [])
                in case http_request c net k ''POST'' [JStr ''/v1/tts/generate-async'']
                          (Some (JObj body1)) of
                     (Inl e, k') \<Rightarrow> (Inl (Leanvox e), k')
                   | (Inr raw, k') \<Rightarrow> (mapJob raw, k'))))"

definition getJob :: "HTTPClient \<Rightarrow> network \<Rightarrow> nat \<Rightarrow> json \<Rightarrow> (exn + Job) \<times> nat" where
  "getJob c net k jobId =
     (case http_request c net k ''GET'' [JStr ''/v1/jobs/'', jobId] None of
        (Inl e, k') \<Rightarrow> (Inl (Leanvox e), k')
      | (Inr raw, k') \<Rightarrow> (mapJob raw, k'))"

text \<open>
  The result of a generation; its \<open>download\<close> and \<open>save\<close> closures, which fetch
  \<open>audio_url\<close> when called, are left out.
\<close>

record GenerateResult =
  audioUrl :: json
  model :: json
  voice :: json
  characters :: json
  costCents :: json
  generatedVoiceId :: json
  suggestion :: json

definition makeResult :: "json \<Rightarrow> GenerateResult" where
  "makeResult raw =
     \<lparr>audioUrl = get_prop raw ''audio_url'',
      model = get_prop raw ''model'',
      voice = get_prop raw ''voice'',
      characters = get_prop raw ''characters'',
      costCents = get_prop raw ''cost_cents'',
      generatedVoiceId = get_prop raw ''generated_voice_id'',
      suggestion = get_prop raw ''suggestion''\<rparr>"

definition terminal :: "Job \<Rightarrow> bool" where
  "terminal j \<longleftrightarrow> job_status j = JStr ''completed'' \<or> job_status j = JStr ''failed''"

text \<open>
  The \<open>while\<close> loop of \<open>generateAsyncAndPoll\<close>. Nothing bounds it: \<open>None\<close> is the
  loop that never ends. Each iteration first sleeps \<open>ASYNC_POLL_INTERVAL\<close> (2000 ms),
  which the model does not record.
\<close>

partial_function (option) poll ::
  "HTTPClient \<Rightarrow> network \<Rightarrow> nat \<Rightarrow> Job \<Rightarrow> (exn + Job) option" where
  "poll c net k current =
     (if \<not> terminal current then
        (case getJob c net k (job_id current) of
           (Inl e, k') \<Rightarrow> Some (Inl e)
         | (Inr j, k') \<Rightarrow> poll c net k' j)
      else Some (Inr current))"

definition generateAsyncAndPoll ::
  "HTTPClient \<Rightarrow> network \<Rightarrow> GenerateOptions \<Rightarrow> (exn + GenerateResult) option" where
  "generateAsyncAndPoll c net options =
     (case generateAsync c net 0 options of
        (Inl e, k) \<Rightarrow> Some (Inl e)
      | (Inr job, k) \<Rightarrow>
          (case poll c net k job of
             None \<Rightarrow> None
           | Some (Inl e) \<Rightarrow> Some (Inl e)
           | Some (Inr current) \<Rightarrow>
               if job_status current = JStr ''failed'' then
                 Some (Inl (Leanvox (new_InvalidRequestError
                   (coalesce (job_error current) (JStr ''Async job failed''))
                   JUndefined JUndefined)))
               else
                 Some (Inr (makeResult (JObj
                   [(''audio_url'', coalesce (job_audioUrl current) (JStr [])),
                    (''model'', JStr (model_or_standard options)),
                    (''voice'', JStr (case opt_voice options of None \<Rightarrow> [] | Some v \<Rightarrow> v)),
                    (''characters'', JNum (real (length (opt_text options)))),
                    (''cost_cents'', JNum 0)])))))"

section \<open>Fixtures of the test suite\<close>

text \<open>\<open>createClient\<close> of the HTTP tests, with its \<open>maxRetries\<close> override.\<close>

definition createClient :: "int \<Rightarrow> HTTPClient" where
  "createClient n =
     \<lparr>baseUrl = ''https://api.test.com'', apiKey = ''lv_test_abc'', timeout = 30,
      maxRetries = n\<rparr>"

text \<open>A response with a status, a status text, headers and a JSON body that parses.\<close>

definition json_response :: "int \<Rightarrow> string \<Rightarrow> (string \<rightharpoonup> string) \<Rightarrow> json \<Rightarrow> response" where
  "json_response st txt hs v =
     \<lparr>status = st, statusText = txt, headers = hs, json_result = Inr v, stream = None\<rparr>"

text \<open>A response whose body is not JSON.\<close>

definition unparsable_response :: "int \<Rightarrow> string \<Rightarrow> response" where
  "unparsable_response st txt =
     \<lparr>status = st, statusText = txt, headers = Map.empty,
      json_result = Inl ''Unexpected token < in JSON at position 0'', stream = None\<rparr>"

text \<open>The body \<open>{ error: { message, code } }\<close>.\<close>

definition error_json :: "string \<Rightarrow> string \<Rightarrow> json" where
  "error_json msg c = JObj [(''error'', JObj [(''message'', JStr msg), (''code'', JStr c)])]"

section \<open>The status invariant\<close>

text \<open>
  What the status code of an error thrown by a call must be, given the events \<open>evs\<close>
  of the call: with no attempt made the error is the "Max retries exceeded" error, of
  status 0; otherwise the last attempt decides. If it was rejected, the error is the
  network error of the fault, of status 0. If it was answered, the error is either the
  one \<open>raiseForStatus\<close> builds from the response, with the status of the response, or,
  for a successful response whose body does not parse, the network error of the parse
  failure, of status 0.
\<close>

definition status_invariant ::
  "network \<Rightarrow> fetch_request \<Rightarrow> event list \<Rightarrow> leanvox_error \<Rightarrow> bool" where
  "status_invariant net rq evs e \<longleftrightarrow>
     (if attempts evs = 0 then e = max_retries_error \<and> statusCode e = 0
      else (case net (attempts evs - 1) rq of
              Rejected msg \<Rightarrow> e = network_error msg \<and> statusCode e = 0
            | Resolved r \<Rightarrow>
                (e = raiseForStatus (status r) (error_body r) \<and> statusCode e = status r)
                \<or> (case json_result r of
                      Inl msg \<Rightarrow> ok r \<and> e = network_error msg \<and> statusCode e = 0
                    | Inr v \<Rightarrow> False)))"

text \<open>
  The job reaches a terminal state: from \<open>job\<close>, after \<open>k\<close> attempts on the
  network, finitely many polls that each return a job lead to the terminal job
  \<open>current\<close>.
\<close>

inductive polls_to :: "HTTPClient \<Rightarrow> network \<Rightarrow> nat \<Rightarrow> Job \<Rightarrow> Job \<Rightarrow> bool" where
  arrived: "terminal job \<Longrightarrow> polls_to c net k job job"
| polled: "\<not> terminal job \<Longrightarrow> getJob c net k (job_id job) = (Inr j, k') \<Longrightarrow>
           polls_to c net k' j current \<Longrightarrow> polls_to c net k job current"

text \<open>Options that set the text only.\<close>

definition text_only :: "string \<Rightarrow> GenerateOptions" where
  "text_only s =
     \<lparr>opt_text = s, opt_model = None, opt_voice = None, opt_language = None,
      opt_format = None, opt_speed = None, opt_exaggeration = None,
      opt_voiceInstructions = None, opt_webhookUrl = None\<rparr>"

text \<open>The body of a job response.\<close>

definition job_json :: "string \<Rightarrow> (string \<times> json) list \<Rightarrow> json" where
  "job_json st kvs = JObj ([(''id'', JStr ''job_auto''), (''status'', JStr st)] @ kvs)"

section \<open>Properties of the classifier\<close>

lemma STATUS_MAP_cases:
  "STATUS_MAP st =
     (if st = 500 then Some new_ServerError
      else if st = 404 then Some new_NotFoundError
      else if st = 401 then Some new_AuthenticationError
      else if st = 400 then Some new_InvalidRequestError
      else None)"
  by (simp add: STATUS_MAP_def)

lemmas new_error_defs =
  new_InsufficientBalanceError_def new_RateLimitError_def new_ServerError_def
  new_NotFoundError_def new_AuthenticationError_def new_InvalidRequestError_def
  new_LeanvoxError_def

lemma cls_raiseForStatus:
  "cls (raiseForStatus st b) =
     (if st = 400 then InvalidRequestError
      else if st = 401 then AuthenticationError
      else if st = 402 then InsufficientBalanceError
      else if st = 404 then NotFoundError
      else if st = 429 then RateLimitError
      else if st = 500 then ServerError
      else LeanvoxError)"
  by (simp add: raiseForStatus_def STATUS_MAP_cases Let_def new_error_defs)

lemma statusCode_raiseForStatus: "statusCode (raiseForStatus st b) = st"
  by (simp add: raiseForStatus_def STATUS_MAP_cases Let_def new_error_defs)

lemma body_raiseForStatus: "body (raiseForStatus st b) = b"
  by (simp add: raiseForStatus_def STATUS_MAP_cases Let_def new_error_defs)

lemma balanceCents_raiseForStatus:
  "balanceCents (raiseForStatus st b) =
     (if st = 402 then get_prop (get_prop b ''error'') ''balance_cents'' else JUndefined)"
  by (simp add: raiseForStatus_def STATUS_MAP_cases Let_def new_error_defs)

lemma retryAfter_raiseForStatus:
  "retryAfter (raiseForStatus st b) =
     (if st = 429 then get_prop (get_prop b ''error'') ''retry_after'' else JUndefined)"
  by (simp add: raiseForStatus_def STATUS_MAP_cases Let_def new_error_defs)

lemma coalesce_defined: "d \<noteq> JUndefined \<Longrightarrow> coalesce a d \<noteq> JUndefined"
  by (simp add: coalesce_def nullish_def)

lemma message_raiseForStatus:
  "message (raiseForStatus st b) =
     coalesce (get_prop (get_prop b ''error'') ''message'')
       (JStr (''API error (status '' @ show_int st @ '')''))"
  by (simp add: raiseForStatus_def STATUS_MAP_cases Let_def new_error_defs)

lemma code_raiseForStatus:
  "code (raiseForStatus st b) =
     coalesce (get_prop (get_prop b ''error'') ''code'') (JStr ''unknown'')"
  by (simp add: raiseForStatus_def STATUS_MAP_cases Let_def new_error_defs default_arg_def
      coalesce_defined)

text \<open>
  C6. For every status and every body, \<open>raiseForStatus\<close> throws the class that the
  taxonomy binds to the status: \<open>AuthenticationError\<close> for 401, \<open>InvalidRequestError\<close>
  for 400, \<open>InsufficientBalanceError\<close> for 402, \<open>NotFoundError\<close> for 404,
  \<open>RateLimitError\<close> for 429, \<open>ServerError\<close> for 500 and the generic \<open>LeanvoxError\<close>
  for any other status. The error carries the status it was raised for, and
  \<open>body.error.balance_cents\<close> as \<open>balanceCents\<close> for 402 (no other class has the
  field), \<open>body.error.retry_after\<close> as \<open>retryAfter\<close> for 429.
\<close>

theorem raiseForStatus_taxonomy:
  "cls (raiseForStatus st b) =
     (if st = 401 then AuthenticationError
      else if st = 400 then InvalidRequestError
      else if st = 402 then InsufficientBalanceError
      else if st = 404 then NotFoundError
      else if st = 429 then RateLimitError
      else if st = 500 then ServerError
      else LeanvoxError)
   \<and> statusCode (raiseForStatus st b) = st
   \<and> balanceCents (raiseForStatus st b) =
       (if st = 402 then get_prop (get_prop b ''error'') ''balance_cents'' else JUndefined)
   \<and> retryAfter (raiseForStatus st b) =
       (if st = 429 then get_prop (get_prop b ''error'') ''retry_after'' else JUndefined)"
  by (simp add: cls_raiseForStatus statusCode_raiseForStatus balanceCents_raiseForStatus
      retryAfter_raiseForStatus)

section \<open>Properties of the retry loop\<close>

lemma run_attempts_Return:
  "int a \<le> maxR \<Longrightarrow> iter a (net a rq) = Return v \<Longrightarrow>
   run_attempts iter maxR net rq a = (Inr v, [Fetch rq])"
  by (subst run_attempts.simps) simp

lemma run_attempts_Throw:
  "int a \<le> maxR \<Longrightarrow> iter a (net a rq) = Throw e \<Longrightarrow>
   run_attempts iter maxR net rq a = (Inl e, [Fetch rq])"
  by (subst run_attempts.simps) simp

lemma run_attempts_Retry:
  "int a \<le> maxR \<Longrightarrow> iter a (net a rq) = Retry d \<Longrightarrow>
   run_attempts iter maxR net rq a =
     (fst (run_attempts iter maxR net rq (Suc a)),
      Fetch rq # Sleep d # snd (run_attempts iter maxR net rq (Suc a)))"
  by (subst run_attempts.simps) (simp add: case_prod_beta)

lemma run_attempts_exhausted:
  "\<not> int a \<le> maxR \<Longrightarrow> run_attempts iter maxR net rq a = (Inl max_retries_error, [])"
  by (subst run_attempts.simps) simp

lemma attempts_Cons_Fetch [simp]: "attempts (Fetch rq # evs) = Suc (attempts evs)"
  by (simp add: attempts_def)

lemma attempts_Cons_Sleep [simp]: "attempts (Sleep d # evs) = attempts evs"
  by (simp add: attempts_def)

lemma attempts_Nil [simp]: "attempts [] = 0"
  by (simp add: attempts_def)

lemma retryable_500: "(500::int) \<in> RETRYABLE_STATUS_CODES"
  by (simp add: RETRYABLE_STATUS_CODES_def)

lemma request_attempt_retryable:
  assumes "status r \<in> RETRYABLE_STATUS_CODES" and "int a < maxRetries c"
  shows "request_attempt c a (Resolved r) = Retry (header_delay r a)"
  using assms by (auto simp: request_attempt_def ok_def RETRYABLE_STATUS_CODES_def)

lemma request_attempt_final:
  assumes "\<not> ok r" and "\<not> int a < maxRetries c"
  shows "request_attempt c a (Resolved r) = Throw (raiseForStatus (status r) (error_body r))"
  using assms by (simp add: request_attempt_def)

lemma request_attempt_not_retryable:
  assumes "\<not> ok r" and "status r \<notin> RETRYABLE_STATUS_CODES"
  shows "request_attempt c a (Resolved r) = Throw (raiseForStatus (status r) (error_body r))"
  using assms by (simp add: request_attempt_def)

text \<open>
  C1. With \<open>maxRetries = 2\<close> and a network on which every attempt of the call is
  answered with status 500, \<open>request\<close> makes exactly three attempts and throws the
  error that \<open>raiseForStatus\<close> builds from the third response: a \<open>ServerError\<close> with
  status code 500, not the "Max retries exceeded" error.
\<close>

theorem request_always_500:
  assumes mr: "maxRetries c = 2"
    and all500: "\<forall>i. \<exists>r. net i (unary_fetch c m p b t) = Resolved r \<and> status r = 500"
  shows "attempts (snd (request c net m p b t)) = 3
       \<and> (\<exists>r e. net 2 (unary_fetch c m p b t) = Resolved r
                \<and> fst (request c net m p b t) = Inl e
                \<and> e = raiseForStatus (status r) (error_body r)
                \<and> cls e = ServerError \<and> statusCode e = 500
                \<and> e \<noteq> max_retries_error)"
proof -
  let ?rq = "unary_fetch c m p b t"
  let ?run = "run_attempts (request_attempt c) (maxRetries c) net ?rq"
  obtain r0 where r0: "net 0 ?rq = Resolved r0" "status r0 = 500"
    using all500 by blast
  obtain r1 where r1: "net 1 ?rq = Resolved r1" "status r1 = 500"
    using all500 by blast
  obtain r2 where r2: "net 2 ?rq = Resolved r2" "status r2 = 500"
    using all500 by blast
  have s0: "request_attempt c 0 (net 0 ?rq) = Retry (header_delay r0 0)"
    using r0 mr by (simp add: request_attempt_retryable retryable_500)
  have s1: "request_attempt c 1 (net 1 ?rq) = Retry (header_delay r1 1)"
    using r1 mr by (simp add: request_attempt_retryable retryable_500)
  have nok: "\<not> ok r2" using r2 by (simp add: ok_def)
  have s2: "request_attempt c 2 (net 2 ?rq) = Throw (raiseForStatus 500 (error_body r2))"
    using r2 mr nok request_attempt_final [of r2 2 c] by simp
  have run2: "?run 2 = (Inl (raiseForStatus 500 (error_body r2)), [Fetch ?rq])"
    using run_attempts_Throw [of 2 "maxRetries c" "request_attempt c" net ?rq, OF _ s2] mr
    by simp
  have run1: "?run 1 = (Inl (raiseForStatus 500 (error_body r2)),
                 [Fetch ?rq, Sleep (header_delay r1 1), Fetch ?rq])"
    using run_attempts_Retry [of 1 "maxRetries c" "request_attempt c" net ?rq, OF _ s1] mr run2
    by (simp add: numeral_2_eq_2)
  have run0: "?run 0 = (Inl (raiseForStatus 500 (error_body r2)),
                 [Fetch ?rq, Sleep (header_delay r0 0), Fetch ?rq, Sleep (header_delay r1 1),
                  Fetch ?rq])"
    using run_attempts_Retry [of 0 "maxRetries c" "request_attempt c" net ?rq, OF _ s0] mr run1
    by simp
  have ne: "raiseForStatus 500 (error_body r2) \<noteq> max_retries_error"
  proof
    assume "raiseForStatus 500 (error_body r2) = max_retries_error"
    then have "statusCode (raiseForStatus 500 (error_body r2)) = statusCode max_retries_error"
      by simp
    then show False
      by (simp add: statusCode_raiseForStatus max_retries_error_def new_LeanvoxError_def)
  qed
  show ?thesis
    using run0 r2 ne
    by (simp add: request_def cls_raiseForStatus statusCode_raiseForStatus)
qed

text \<open>
  The run of the test "exhausts retries and throws ServerError": the server answers
  500 with \<open>{ error: { message: "server error", code: "server_error" } }\<close> every time.
\<close>

theorem request_always_500_witness:
  "attempts (snd (request (createClient 2)
      (scripted [] (Resolved (json_response 500 ''Internal Server Error'' Map.empty
         (error_json ''server error'' ''server_error''))))
      ''GET'' [JStr ''/v1/test''] None None)) = 3
   \<and> fst (request (createClient 2)
      (scripted [] (Resolved (json_response 500 ''Internal Server Error'' Map.empty
         (error_json ''server error'' ''server_error''))))
      ''GET'' [JStr ''/v1/test''] None None)
     = Inl \<lparr>cls = ServerError, message = JStr ''server error'', code = JStr ''server_error'',
            statusCode = 500, body = error_json ''server error'' ''server_error'',
            balanceCents = JUndefined, retryAfter = JUndefined\<rparr>"
  using request_always_500 [of "createClient 2"
      "scripted [] (Resolved (json_response 500 ''Internal Server Error'' Map.empty
         (error_json ''server error'' ''server_error'')))"
      "''GET''" "[JStr ''/v1/test'']" None None]
  by (auto simp: createClient_def scripted_def json_response_def error_json_def error_body_def
      raiseForStatus_def STATUS_MAP_cases Let_def new_error_defs coalesce_def nullish_def
      default_arg_def)

lemma fetch_events_same:
  "Fetch rq' \<in> set (snd (run_attempts iter maxR net rq a)) \<Longrightarrow> rq' = rq"
proof (induction iter maxR net rq a rule: run_attempts.induct)
  case (1 iter maxR net rq attempt)
  show ?case
  proof (cases "int attempt \<le> maxR")
    case False
    with "1.prems" show ?thesis by (simp add: run_attempts_exhausted)
  next
    case True
    show ?thesis
    proof (cases "iter attempt (net attempt rq)")
      case (Return v)
      with True "1.prems" show ?thesis by (simp add: run_attempts_Return)
    next
      case (Throw e)
      with True "1.prems" show ?thesis by (simp add: run_attempts_Throw)
    next
      case (Retry d)
      with True "1.prems" "1.IH" show ?thesis
        by (auto simp: run_attempts_Retry)
    qed
  qed
qed

text \<open>
  When an iteration only retries while a retry remains, the loop ends with an error in
  one of two ways: it never ran, or some attempt threw.
\<close>

lemma run_attempts_Inl:
  assumes retry_guard: "\<forall>n out d. iter n out = Retry d \<longrightarrow> int n < maxR"
    and run: "run_attempts iter maxR net rq a = (Inl e, evs)"
  shows "(\<not> int a \<le> maxR \<and> evs = [] \<and> e = max_retries_error)
       \<or> (\<exists>n. a \<le> n \<and> int n \<le> maxR \<and> iter n (net n rq) = Throw e
              \<and> attempts evs = Suc (n - a))"
  using retry_guard run
proof (induction iter maxR net rq a arbitrary: evs rule: run_attempts.induct)
  case (1 iter maxR net rq attempt)
  note guard = "1.prems"(1) and run = "1.prems"(2)
  show ?case
  proof (cases "int attempt \<le> maxR")
    case False
    with run show ?thesis by (simp add: run_attempts_exhausted)
  next
    case True
    show ?thesis
    proof (cases "iter attempt (net attempt rq)")
      case (Return v)
      with True run show ?thesis by (simp add: run_attempts_Return)
    next
      case (Throw e')
      with True run have "e' = e" "evs = [Fetch rq]"
        by (simp_all add: run_attempts_Throw)
      with True Throw show ?thesis by auto
    next
      case (Retry d)
      obtain evs' where evs': "run_attempts iter maxR net rq (Suc attempt) = (Inl e, evs')"
        and evs: "evs = Fetch rq # Sleep d # evs'"
        using True Retry run by (cases "run_attempts iter maxR net rq (Suc attempt)")
          (simp add: run_attempts_Retry)
      have next_ok: "int (Suc attempt) \<le> maxR"
        using guard Retry by fastforce
      from "1.IH" [OF True Retry guard evs'] next_ok
      obtain n where n: "Suc attempt \<le> n" "int n \<le> maxR" "iter n (net n rq) = Throw e"
        "attempts evs' = Suc (n - Suc attempt)"
        by auto
      then have "attempt \<le> n \<and> int n \<le> maxR \<and> iter n (net n rq) = Throw e
                 \<and> attempts evs = Suc (n - attempt)"
        using evs by auto
      then show ?thesis by blast
    qed
  qed
qed

lemma request_attempt_Retry:
  "request_attempt c n out = Retry d \<Longrightarrow> int n < maxRetries c"
  by (cases out) (auto simp: request_attempt_def on_catch_def split: if_splits sum.splits)

lemma upload_attempt_Retry:
  "upload_attempt c n out = Retry d \<Longrightarrow> int n < maxRetries c"
  by (cases out) (auto simp: upload_attempt_def on_catch_def split: if_splits sum.splits)

lemma requestStream_attempt_Retry:
  "requestStream_attempt c n out = Retry d \<Longrightarrow> int n < maxRetries c"
  by (cases out)
    (auto simp: requestStream_attempt_def on_catch_def split: if_splits option.splits)

lemma request_attempt_guard:
  "\<forall>n out d. request_attempt c n out = Retry d \<longrightarrow> int n < maxRetries c"
  using request_attempt_Retry by blast

lemma upload_attempt_guard:
  "\<forall>n out d. upload_attempt c n out = Retry d \<longrightarrow> int n < maxRetries c"
  using upload_attempt_Retry by blast

lemma requestStream_attempt_guard:
  "\<forall>n out d. requestStream_attempt c n out = Retry d \<longrightarrow> int n < maxRetries c"
  using requestStream_attempt_Retry by blast

lemma statusCode_network_error [simp]: "statusCode (network_error msg) = 0"
  by (simp add: network_error_def new_LeanvoxError_def)

lemma statusCode_max_retries_error [simp]: "statusCode max_retries_error = 0"
  by (simp add: max_retries_error_def new_LeanvoxError_def)

lemma request_attempt_Throw:
  assumes "request_attempt c n out = Throw e"
  shows "(case out of
            Rejected msg \<Rightarrow> e = network_error msg
          | Resolved r \<Rightarrow>
              e = raiseForStatus (status r) (error_body r)
              \<or> (case json_result r of Inl msg \<Rightarrow> ok r \<and> e = network_error msg | Inr v \<Rightarrow> False))"
  using assms
  by (cases out) (auto simp: request_attempt_def on_catch_def split: if_splits sum.splits)

lemma upload_attempt_Throw:
  assumes "upload_attempt c n out = Throw e"
  shows "(case out of
            Rejected msg \<Rightarrow> e = network_error msg
          | Resolved r \<Rightarrow>
              e = raiseForStatus (status r) (error_body r)
              \<or> (case json_result r of Inl msg \<Rightarrow> ok r \<and> e = network_error msg | Inr v \<Rightarrow> False))"
  using assms
  by (cases out) (auto simp: upload_attempt_def on_catch_def split: if_splits sum.splits)

lemma requestStream_attempt_Throw:
  assumes "requestStream_attempt c n out = Throw e"
  shows "(case out of
            Rejected msg \<Rightarrow> e = network_error msg
          | Resolved r \<Rightarrow>
              e = raiseForStatus (status r) (error_body r)
              \<or> (case json_result r of Inl msg \<Rightarrow> ok r \<and> e = network_error msg | Inr v \<Rightarrow> False))"
  using assms
  by (cases out)
    (auto simp: requestStream_attempt_def on_catch_def split: if_splits option.splits sum.splits)

lemma run_attempts_status_invariant:
  assumes guard: "\<forall>n out d. iter n out = Retry d \<longrightarrow> int n < maxR"
    and thrown: "\<forall>n out e. iter n out = Throw e \<longrightarrow>
      (case out of
         Rejected msg \<Rightarrow> e = network_error msg
       | Resolved r \<Rightarrow>
           e = raiseForStatus (status r) (error_body r)
           \<or> (case json_result r of Inl msg \<Rightarrow> ok r \<and> e = network_error msg | Inr v \<Rightarrow> False))"
    and run: "run_attempts iter maxR net rq 0 = (Inl e, evs)"
  shows "status_invariant net rq evs e"
proof -
  from run_attempts_Inl [OF guard run]
  consider "evs = []" "e = max_retries_error"
    | n where "int n \<le> maxR" "iter n (net n rq) = Throw e" "attempts evs = Suc n"
    by auto
  then show ?thesis
  proof cases
    case 1
    then show ?thesis by (simp add: status_invariant_def)
  next
    case 2
    from thrown 2(2) have
      "(case net n rq of
          Rejected msg \<Rightarrow> e = network_error msg
        | Resolved r \<Rightarrow>
            e = raiseForStatus (status r) (error_body r)
            \<or> (case json_result r of Inl msg \<Rightarrow> ok r \<and> e = network_error msg | Inr v \<Rightarrow> False))"
      by blast
    with 2(3) show ?thesis
      by (auto simp: status_invariant_def statusCode_raiseForStatus
          split: outcome.splits sum.splits)
  qed
qed

lemma run_attempts_skip:
  assumes "\<forall>i. a \<le> i \<and> i < k \<longrightarrow> (\<exists>d. iter i (net i rq) = Retry d)"
    and "a \<le> k" and "int k \<le> maxR"
  shows "fst (run_attempts iter maxR net rq a) = fst (run_attempts iter maxR net rq k)
       \<and> attempts (snd (run_attempts iter maxR net rq a))
         = (k - a) + attempts (snd (run_attempts iter maxR net rq k))"
  using assms
proof (induction "k - a" arbitrary: a)
  case 0
  then show ?case by simp
next
  case (Suc n)
  then have lt: "a < k" by simp
  with Suc.prems obtain d where d: "iter a (net a rq) = Retry d" by auto
  have le: "int a \<le> maxR" using lt Suc.prems by simp
  have IH: "fst (run_attempts iter maxR net rq (Suc a)) = fst (run_attempts iter maxR net rq k)
       \<and> attempts (snd (run_attempts iter maxR net rq (Suc a)))
         = (k - Suc a) + attempts (snd (run_attempts iter maxR net rq k))"
    using Suc.hyps(1) [of "Suc a"] Suc.hyps(2) Suc.prems lt by auto
  show ?case
    using le d IH lt by (simp add: run_attempts_Retry)
qed

lemma raiseForStatus_not_network_error: "raiseForStatus st b \<noteq> network_error msg"
proof
  assume eq: "raiseForStatus st b = network_error msg"
  then have "body (raiseForStatus st b) = body (network_error msg)" by simp
  then have b: "b = JUndefined"
    by (simp add: body_raiseForStatus network_error_def new_LeanvoxError_def)
  from eq have "message (raiseForStatus st b) = message (network_error msg)" by simp
  with b show False
    by (simp add: message_raiseForStatus network_error_def new_LeanvoxError_def coalesce_def
        nullish_def)
qed

lemma sleeps_run_attempts:
  "i < length (sleeps (snd (run_attempts iter maxR net rq a))) \<Longrightarrow>
   iter (a + i) (net (a + i) rq) = Retry (sleeps (snd (run_attempts iter maxR net rq a)) ! i)"
proof (induction iter maxR net rq a arbitrary: i rule: run_attempts.induct)
  case (1 iter maxR net rq attempt)
  show ?case
  proof (cases "int attempt \<le> maxR")
    case False
    with "1.prems" show ?thesis by (simp add: run_attempts_exhausted)
  next
    case True
    show ?thesis
    proof (cases "iter attempt (net attempt rq)")
      case (Return v)
      with True "1.prems" show ?thesis by (simp add: run_attempts_Return)
    next
      case (Throw e)
      with True "1.prems" show ?thesis by (simp add: run_attempts_Throw)
    next
      case (Retry d)
      have unfold: "run_attempts iter maxR net rq attempt =
          (fst (run_attempts iter maxR net rq (Suc attempt)),
           Fetch rq # Sleep d # snd (run_attempts iter maxR net rq (Suc attempt)))"
        using True Retry by (simp add: run_attempts_Retry)
      show ?thesis
      proof (cases i)
        case 0
        with Retry unfold show ?thesis by simp
      next
        case (Suc j)
        with "1.prems" unfold
        have "j < length (sleeps (snd (run_attempts iter maxR net rq (Suc attempt))))"
          by simp
        from "1.IH" [OF True Retry this] Suc unfold show ?thesis by simp
      qed
    qed
  qed
qed

lemma backoff_eq: "backoff n = [1000, 2000, 4000] ! min n 2"
  by (auto simp: backoff_def BACKOFF_SCHEDULE_def min_def)

lemma request_attempt_Retry_delay:
  assumes "request_attempt c n out = Retry d"
  shows "d = (case out of
                Rejected msg \<Rightarrow> BackoffMs (backoff n)
              | Resolved r \<Rightarrow> if ok r then BackoffMs (backoff n) else header_delay r n)"
  using assms
  by (cases out) (auto simp: request_attempt_def on_catch_def split: if_splits sum.splits)

lemma request_attempt_Retry_status:
  assumes "request_attempt c n (Resolved r) = Retry d" and "\<not> ok r"
  shows "status r \<in> RETRYABLE_STATUS_CODES"
  using assms by (auto simp: request_attempt_def split: if_splits)

text \<open>Unfolding the definitions on a concrete run.\<close>

lemmas run_defs =
  createClient_def scripted_def json_response_def unparsable_response_def error_json_def
  error_body_def raiseForStatus_def STATUS_MAP_cases Let_def new_error_defs coalesce_def
  nullish_def default_arg_def

lemmas eval_defs =
  request_def upload_def requestStream_def run_attempts.simps request_attempt_def
  upload_attempt_def requestStream_attempt_def ok_def RETRYABLE_STATUS_CODES_def
  header_delay_def unary_fetch_def upload_fetch_def stream_fetch_def json_payload_def
  on_catch_def backoff_def BACKOFF_SCHEDULE_def network_error_def max_retries_error_def

section \<open>Errors that are not retried\<close>

text \<open>
  C2. When the first attempt of \<open>request\<close> is answered with status 400, 401, 402 or
  404, the call makes that one attempt and throws the error \<open>raiseForStatus\<close> builds
  from the response, of the class bound to the status: \<open>InvalidRequestError\<close>,
  \<open>AuthenticationError\<close>, \<open>InsufficientBalanceError\<close>, \<open>NotFoundError\<close>. This holds
  for every \<open>maxRetries\<close> with which a first attempt takes place, that is, from 0 on.
\<close>

theorem request_client_error_no_retry:
  assumes first: "0 \<le> maxRetries c"
    and resp: "net 0 (unary_fetch c m p b t) = Resolved r"
    and st: "status r \<in> {400, 401, 402, 404}"
  shows "request c net m p b t
           = (Inl (raiseForStatus (status r) (error_body r)), [Fetch (unary_fetch c m p b t)])
       \<and> attempts (snd (request c net m p b t)) = 1
       \<and> cls (raiseForStatus (status r) (error_body r))
           = (if status r = 400 then InvalidRequestError
              else if status r = 401 then AuthenticationError
              else if status r = 402 then InsufficientBalanceError
              else NotFoundError)
       \<and> statusCode (raiseForStatus (status r) (error_body r)) = status r"
proof -
  have nok: "\<not> ok r" using st by (auto simp: ok_def)
  have nr: "status r \<notin> RETRYABLE_STATUS_CODES"
    using st by (auto simp: RETRYABLE_STATUS_CODES_def)
  have "request_attempt c 0 (net 0 (unary_fetch c m p b t))
          = Throw (raiseForStatus (status r) (error_body r))"
    using resp nok nr by (simp add: request_attempt_not_retryable)
  then have "request c net m p b t
           = (Inl (raiseForStatus (status r) (error_body r)), [Fetch (unary_fetch c m p b t)])"
    unfolding request_def using first by (intro run_attempts_Throw) simp_all
  then show ?thesis
    using st by (auto simp: cls_raiseForStatus statusCode_raiseForStatus)
qed

text \<open>The run of the test "does not retry on 400".\<close>

theorem request_client_error_no_retry_witness:
  "attempts (snd (request (createClient 2)
      (scripted [] (Resolved (json_response 400 ''Bad Request'' Map.empty
         (JObj [(''error'', JObj [(''message'', JStr ''bad'')])]))))
      ''POST'' [JStr ''/v1/test''] None None)) = 1
   \<and> fst (request (createClient 2)
      (scripted [] (Resolved (json_response 400 ''Bad Request'' Map.empty
         (JObj [(''error'', JObj [(''message'', JStr ''bad'')])]))))
      ''POST'' [JStr ''/v1/test''] None None)
     = Inl \<lparr>cls = InvalidRequestError, message = JStr ''bad'', code = JStr ''unknown'',
            statusCode = 400, body = JObj [(''error'', JObj [(''message'', JStr ''bad'')])],
            balanceCents = JUndefined, retryAfter = JUndefined\<rparr>"
  using request_client_error_no_retry [of "createClient 2"
      "scripted [] (Resolved (json_response 400 ''Bad Request'' Map.empty
         (JObj [(''error'', JObj [(''message'', JStr ''bad'')])])))"
      "''POST''" "[JStr ''/v1/test'']" None None
      "json_response 400 ''Bad Request'' Map.empty
         (JObj [(''error'', JObj [(''message'', JStr ''bad'')])])"]
  by (simp add: run_defs)

text \<open>
  C7. When the first \<open>k\<close> attempts of \<open>request\<close> are rejected by the network and attempt
  \<open>k\<close>, which the retry budget still allows, is answered with an error status that is
  not retried (a status outside the retryable set, or any error status on the last
  attempt), the call throws the error \<open>raiseForStatus\<close> builds from that response,
  after \<open>k + 1\<close> attempts. Its status code is the status of the response, and it is
  not a network error.
\<close>

theorem request_mixed_failures:
  assumes rejected: "\<forall>i<k. \<exists>msg. net i (unary_fetch c m p b t) = Rejected msg"
    and final: "net k (unary_fetch c m p b t) = Resolved r"
    and nok: "\<not> ok r"
    and last: "status r \<notin> RETRYABLE_STATUS_CODES \<or> int k = maxRetries c"
    and budget: "int k \<le> maxRetries c"
  shows "fst (request c net m p b t) = Inl (raiseForStatus (status r) (error_body r))
       \<and> attempts (snd (request c net m p b t)) = Suc k
       \<and> statusCode (raiseForStatus (status r) (error_body r)) = status r
       \<and> (\<forall>msg. raiseForStatus (status r) (error_body r) \<noteq> network_error msg)"
proof -
  let ?rq = "unary_fetch c m p b t"
  have retry: "\<forall>i. 0 \<le> i \<and> i < k \<longrightarrow> (\<exists>d. request_attempt c i (net i ?rq) = Retry d)"
  proof (intro allI impI)
    fix i assume i: "0 \<le> i \<and> i < k"
    then obtain msg where "net i ?rq = Rejected msg" using rejected by blast
    moreover have "int i < maxRetries c" using i budget by simp
    ultimately show "\<exists>d. request_attempt c i (net i ?rq) = Retry d"
      by (simp add: request_attempt_def on_catch_def)
  qed
  have thrown: "request_attempt c k (net k ?rq) = Throw (raiseForStatus (status r) (error_body r))"
    using final nok last by (auto simp: request_attempt_def)
  have "run_attempts (request_attempt c) (maxRetries c) net ?rq k
          = (Inl (raiseForStatus (status r) (error_body r)), [Fetch ?rq])"
    using budget thrown by (simp add: run_attempts_Throw)
  moreover have "fst (run_attempts (request_attempt c) (maxRetries c) net ?rq 0)
           = fst (run_attempts (request_attempt c) (maxRetries c) net ?rq k)
       \<and> attempts (snd (run_attempts (request_attempt c) (maxRetries c) net ?rq 0))
           = (k - 0) + attempts (snd (run_attempts (request_attempt c) (maxRetries c) net ?rq k))"
    using retry budget
    by (intro run_attempts_skip [where iter = "request_attempt c" and a = 0]) simp_all
  ultimately show ?thesis
    by (simp add: request_def statusCode_raiseForStatus raiseForStatus_not_network_error)
qed

text \<open>Two refused connections, then a 400, with \<open>maxRetries = 2\<close>.\<close>

theorem request_mixed_failures_witness:
  "attempts (snd (request (createClient 2)
      (scripted [Rejected ''ECONNREFUSED'', Rejected ''ECONNREFUSED'']
         (Resolved (json_response 400 ''Bad Request'' Map.empty
            (error_json ''bad request'' ''invalid_request''))))
      ''POST'' [JStr ''/v1/test''] None None)) = 3
   \<and> fst (request (createClient 2)
      (scripted [Rejected ''ECONNREFUSED'', Rejected ''ECONNREFUSED'']
         (Resolved (json_response 400 ''Bad Request'' Map.empty
            (error_json ''bad request'' ''invalid_request''))))
      ''POST'' [JStr ''/v1/test''] None None)
     = Inl \<lparr>cls = InvalidRequestError, message = JStr ''bad request'',
            code = JStr ''invalid_request'', statusCode = 400,
            body = error_json ''bad request'' ''invalid_request'',
            balanceCents = JUndefined, retryAfter = JUndefined\<rparr>"
  using request_mixed_failures [of 2
      "scripted [Rejected ''ECONNREFUSED'', Rejected ''ECONNREFUSED'']
         (Resolved (json_response 400 ''Bad Request'' Map.empty
            (error_json ''bad request'' ''invalid_request'')))"
      "createClient 2" "''POST''" "[JStr ''/v1/test'']" None None
      "json_response 400 ''Bad Request'' Map.empty
            (error_json ''bad request'' ''invalid_request'')"]
  by (simp add: run_defs ok_def RETRYABLE_STATUS_CODES_def less_Suc_eq numeral_2_eq_2)

section \<open>The status code of a thrown error\<close>

text \<open>
  C8. Every error thrown by \<open>request\<close>, \<open>requestStream\<close> or \<open>upload\<close> satisfies the
  status invariant: an error built from a response has the status of that response (the
  last one received), and the network error and the "Max retries exceeded" error have
  status 0.
\<close>

theorem raised_error_status_invariant:
  "(request c net m p b t = (Inl e, evs) \<longrightarrow>
      status_invariant net (unary_fetch c m p b t) evs e)
   \<and> (requestStream c net m p b t = (Inl e, evs) \<longrightarrow>
      status_invariant net (stream_fetch c m p b t) evs e)
   \<and> (upload c net p formData t = (Inl e, evs) \<longrightarrow>
      status_invariant net (upload_fetch c p formData t) evs e)"
proof (intro conjI impI)
  assume "request c net m p b t = (Inl e, evs)"
  then show "status_invariant net (unary_fetch c m p b t) evs e"
    unfolding request_def
    using run_attempts_status_invariant [OF request_attempt_guard] request_attempt_Throw
    by blast
next
  assume "requestStream c net m p b t = (Inl e, evs)"
  then show "status_invariant net (stream_fetch c m p b t) evs e"
    unfolding requestStream_def
    using run_attempts_status_invariant [OF requestStream_attempt_guard]
      requestStream_attempt_Throw
    by blast
next
  assume "upload c net p formData t = (Inl e, evs)"
  then show "status_invariant net (upload_fetch c p formData t) evs e"
    unfolding upload_def
    using run_attempts_status_invariant [OF upload_attempt_guard] upload_attempt_Throw
    by blast
qed

text \<open>
  Three runs, one for each origin of an error: a 418 answered to \<open>request\<close>, a refused
  connection on both attempts of \<open>requestStream\<close>, and an \<open>upload\<close> on a client whose
  \<open>maxRetries\<close> is \<open>-1\<close>, which makes no attempt.
\<close>

theorem raised_error_status_invariant_witness:
  "request (createClient 0)
      (scripted [] (Resolved (json_response 418 ''I am a teapot'' Map.empty
         (JObj [(''error'', JObj [(''message'', JStr ''teapot'')])]))))
      ''GET'' [JStr ''/v1/test''] None None
     = (Inl \<lparr>cls = LeanvoxError, message = JStr ''teapot'', code = JStr ''unknown'',
             statusCode = 418,
             body = JObj [(''error'', JObj [(''message'', JStr ''teapot'')])],
             balanceCents = JUndefined, retryAfter = JUndefined\<rparr>,
        [Fetch (unary_fetch (createClient 0) ''GET'' [JStr ''/v1/test''] None None)])
   \<and> status_invariant
       (scripted [] (Resolved (json_response 418 ''I am a teapot'' Map.empty
         (JObj [(''error'', JObj [(''message'', JStr ''teapot'')])]))))
       (unary_fetch (createClient 0) ''GET'' [JStr ''/v1/test''] None None)
       [Fetch (unary_fetch (createClient 0) ''GET'' [JStr ''/v1/test''] None None)]
       \<lparr>cls = LeanvoxError, message = JStr ''teapot'', code = JStr ''unknown'',
             statusCode = 418,
             body = JObj [(''error'', JObj [(''message'', JStr ''teapot'')])],
             balanceCents = JUndefined, retryAfter = JUndefined\<rparr>
   \<and> requestStream (createClient 1) (scripted [] (Rejected ''ECONNREFUSED''))
      ''POST'' [JStr ''/v1/tts/stream''] None None
     = (Inl \<lparr>cls = LeanvoxError, message = JStr ''Network error: ECONNREFUSED'',
             code = JStr ''network_error'', statusCode = 0, body = JUndefined,
             balanceCents = JUndefined, retryAfter = JUndefined\<rparr>,
        [Fetch (stream_fetch (createClient 1) ''POST'' [JStr ''/v1/tts/stream''] None None),
         Sleep (BackoffMs 1000),
         Fetch (stream_fetch (createClient 1) ''POST'' [JStr ''/v1/tts/stream''] None None)])
   \<and> status_invariant (scripted [] (Rejected ''ECONNREFUSED''))
       (stream_fetch (createClient 1) ''POST'' [JStr ''/v1/tts/stream''] None None)
       [Fetch (stream_fetch (createClient 1) ''POST'' [JStr ''/v1/tts/stream''] None None),
        Sleep (BackoffMs 1000),
        Fetch (stream_fetch (createClient 1) ''POST'' [JStr ''/v1/tts/stream''] None None)]
       \<lparr>cls = LeanvoxError, message = JStr ''Network error: ECONNREFUSED'',
             code = JStr ''network_error'', statusCode = 0, body = JUndefined,
             balanceCents = JUndefined, retryAfter = JUndefined\<rparr>
   \<and> upload (createClient (- 1)) (scripted [] (Rejected ''ECONNREFUSED''))
      [JStr ''/v1/files/extract-text''] [] None
     = (Inl \<lparr>cls = LeanvoxError, message = JStr ''Max retries exceeded'',
             code = JStr ''max_retries'', statusCode = 0, body = JUndefined,
             balanceCents = JUndefined, retryAfter = JUndefined\<rparr>, [])
   \<and> status_invariant (scripted [] (Rejected ''ECONNREFUSED''))
       (upload_fetch (createClient (- 1)) [JStr ''/v1/files/extract-text''] [] None) []
       \<lparr>cls = LeanvoxError, message = JStr ''Max retries exceeded'',
             code = JStr ''max_retries'', statusCode = 0, body = JUndefined,
             balanceCents = JUndefined, retryAfter = JUndefined\<rparr>"
proof -
  have unary: "request (createClient 0)
      (scripted [] (Resolved (json_response 418 ''I am a teapot'' Map.empty
         (JObj [(''error'', JObj [(''message'', JStr ''teapot'')])]))))
      ''GET'' [JStr ''/v1/test''] None None
     = (Inl \<lparr>cls = LeanvoxError, message = JStr ''teapot'', code = JStr ''unknown'',
             statusCode = 418,
             body = JObj [(''error'', JObj [(''message'', JStr ''teapot'')])],
             balanceCents = JUndefined, retryAfter = JUndefined\<rparr>,
        [Fetch (unary_fetch (createClient 0) ''GET'' [JStr ''/v1/test''] None None)])"
    by (simp add: eval_defs run_defs)
  have streaming: "requestStream (createClient 1) (scripted [] (Rejected ''ECONNREFUSED''))
      ''POST'' [JStr ''/v1/tts/stream''] None None
     = (Inl \<lparr>cls = LeanvoxError, message = JStr ''Network error: ECONNREFUSED'',
             code = JStr ''network_error'', statusCode = 0, body = JUndefined,
             balanceCents = JUndefined, retryAfter = JUndefined\<rparr>,
        [Fetch (stream_fetch (createClient 1) ''POST'' [JStr ''/v1/tts/stream''] None None),
         Sleep (BackoffMs 1000),
         Fetch (stream_fetch (createClient 1) ''POST'' [JStr ''/v1/tts/stream''] None None)])"
    by (simp add: eval_defs run_defs)
  have multipart: "upload (createClient (- 1)) (scripted [] (Rejected ''ECONNREFUSED''))
      [JStr ''/v1/files/extract-text''] [] None
     = (Inl \<lparr>cls = LeanvoxError, message = JStr ''Max retries exceeded'',
             code = JStr ''max_retries'', statusCode = 0, body = JUndefined,
             balanceCents = JUndefined, retryAfter = JUndefined\<rparr>, [])"
    by (simp add: eval_defs run_defs)
  from unary streaming multipart
    raised_error_status_invariant [THEN conjunct1, rule_format, OF unary]
    raised_error_status_invariant [THEN conjunct2, THEN conjunct1, rule_format, OF streaming]
    raised_error_status_invariant [THEN conjunct2, THEN conjunct2, rule_format, OF multipart]
  show ?thesis by simp
qed

section \<open>The delay before a retry\<close>

text \<open>
  C3, as stated, fails: the claim puts a retried 503 on the fixed schedule, but
  \<open>request\<close> reads the \<open>Retry-After\<close> header of every retryable response. With
  \<open>maxRetries = 1\<close>, a 503 carrying \<open>Retry-After: 5\<close> and then a 200, the one sleep of
  the call is the header's delay, not the schedule's first entry.
\<close>

theorem retry_after_on_503_counterexample:
  "sleeps (snd (request (createClient 1)
      (scripted [Resolved (json_response 503 ''Service Unavailable''
                   [''Retry-After'' \<mapsto> ''5''] (JObj []))]
         (Resolved (json_response 200 ''OK'' Map.empty (JObj [(''ok'', JBool True)]))))
      ''GET'' [JStr ''/v1/test''] None None)) = [RetryAfterMs ''5'']
   \<and> [RetryAfterMs ''5''] \<noteq> [BackoffMs (BACKOFF_SCHEDULE ! 0)]"
  by (simp add: eval_defs run_defs)

text \<open>
  C3, amended. The \<open>i\<close>-th sleep of a call of \<open>request\<close> follows attempt \<open>i\<close>. Its
  delay is the \<open>Retry-After\<close> header's value times 1000 ms when the attempt was
  answered with an error status and a non-empty \<open>Retry-After\<close> header, whatever the
  retryable status; in every other case (no header or an empty one, a rejected attempt,
  a successful response whose body does not parse) it is the entry \<open>i\<close> of the schedule
  \<open>[1000, 2000, 4000]\<close>, the last entry from index 2 on. An error response that is
  followed by a sleep has one of the statuses 429, 500, 502, 503, 504.
\<close>

theorem request_sleep_delay:
  assumes i: "i < length (sleeps (snd (request c net m p b t)))"
  shows "sleeps (snd (request c net m p b t)) ! i =
           (case net i (unary_fetch c m p b t) of
              Rejected msg \<Rightarrow> BackoffMs ([1000, 2000, 4000] ! min i 2)
            | Resolved r \<Rightarrow>
                (case headers r ''Retry-After'' of
                   None \<Rightarrow> BackoffMs ([1000, 2000, 4000] ! min i 2)
                 | Some ra \<Rightarrow>
                     if \<not> ok r \<and> ra \<noteq> [] then RetryAfterMs ra
                     else BackoffMs ([1000, 2000, 4000] ! min i 2)))
       \<and> (\<forall>r. net i (unary_fetch c m p b t) = Resolved r \<and> \<not> ok r
              \<longrightarrow> status r \<in> {429, 500, 502, 503, 504})"
proof -
  let ?rq = "unary_fetch c m p b t"
  let ?d = "sleeps (snd (request c net m p b t)) ! i"
  have step: "request_attempt c i (net i ?rq) = Retry ?d"
    using sleeps_run_attempts [of i "request_attempt c" "maxRetries c" net ?rq 0] i
    by (simp add: request_def)
  have d: "?d = (case net i ?rq of
                Rejected msg \<Rightarrow> BackoffMs (backoff i)
              | Resolved r \<Rightarrow> if ok r then BackoffMs (backoff i) else header_delay r i)"
    using request_attempt_Retry_delay [OF step] .
  have st: "\<forall>r. net i ?rq = Resolved r \<and> \<not> ok r \<longrightarrow> status r \<in> {429, 500, 502, 503, 504}"
  proof (intro allI impI)
    fix r assume r: "net i ?rq = Resolved r \<and> \<not> ok r"
    with step have "request_attempt c i (Resolved r) = Retry ?d" by simp
    with r have "status r \<in> RETRYABLE_STATUS_CODES"
      using request_attempt_Retry_status by blast
    then show "status r \<in> {429, 500, 502, 503, 504}"
      by (simp add: RETRYABLE_STATUS_CODES_def)
  qed
  show ?thesis
    using st by (auto simp: d backoff_eq header_delay_def split: outcome.splits option.splits)
qed

text \<open>The run of the counterexample: its sleep of index 0 follows a 503 with the header.\<close>

theorem request_sleep_delay_witness:
  "sleeps (snd (request (createClient 1)
      (scripted [Resolved (json_response 503 ''Service Unavailable''
                   [''Retry-After'' \<mapsto> ''5''] (JObj []))]
         (Resolved (json_response 200 ''OK'' Map.empty (JObj [(''ok'', JBool True)]))))
      ''GET'' [JStr ''/v1/test''] None None)) ! 0 = RetryAfterMs ''5''"
  using request_sleep_delay [of 0 "createClient 1"
      "scripted [Resolved (json_response 503 ''Service Unavailable''
                   [''Retry-After'' \<mapsto> ''5''] (JObj []))]
         (Resolved (json_response 200 ''OK'' Map.empty (JObj [(''ok'', JBool True)])))"
      "''GET''" "[JStr ''/v1/test'']" None None]
  by (simp add: eval_defs run_defs)

text \<open>
  C4. \<open>upload\<close> does not have the retry semantics of \<open>request\<close>: it never reads
  \<open>Retry-After\<close>. With \<open>maxRetries = 1\<close>, a 429 carrying \<open>Retry-After: 5\<close> and then a
  200, \<open>upload\<close> sleeps the schedule's 1000 ms where \<open>request\<close>, on the same network,
  sleeps the header's delay.
\<close>

theorem upload_ignores_retry_after:
  "sleeps (snd (upload (createClient 1)
      (scripted [Resolved (json_response 429 ''Too Many Requests''
                   [''Retry-After'' \<mapsto> ''5''] (error_json ''rate limited'' ''rate_limit_exceeded''))]
         (Resolved (json_response 200 ''OK'' Map.empty (JObj [(''text'', JStr ''hello'')]))))
      [JStr ''/v1/files/extract-text''] [(''file'', ''upload'')] None)) = [BackoffMs 1000]
   \<and> sleeps (snd (request (createClient 1)
      (scripted [Resolved (json_response 429 ''Too Many Requests''
                   [''Retry-After'' \<mapsto> ''5''] (error_json ''rate limited'' ''rate_limit_exceeded''))]
         (Resolved (json_response 200 ''OK'' Map.empty (JObj [(''text'', JStr ''hello'')]))))
      ''POST'' [JStr ''/v1/files/extract-text''] None None)) = [RetryAfterMs ''5'']"
  by (simp add: eval_defs run_defs)

section \<open>A body that does not parse\<close>

text \<open>
  C5, as stated, fails: a body that cannot be parsed is not treated as an empty object.
  \<open>request\<close> replaces it by \<open>{ error: { message: response.statusText } }\<close>, so the
  message of the error is the status text. A 404 with the status text "Not Found" and
  a body that is not JSON throws a \<open>NotFoundError\<close> whose message is "Not Found", not
  "API error (status 404)".
\<close>

theorem unparsable_body_message_counterexample:
  "fst (request (createClient 0)
      (scripted [] (Resolved (unparsable_response 404 ''Not Found'')))
      ''GET'' [JStr ''/v1/test''] None None)
     = Inl \<lparr>cls = NotFoundError, message = JStr ''Not Found'', code = JStr ''unknown'',
            statusCode = 404,
            body = JObj [(''error'', JObj [(''message'', JStr ''Not Found'')])],
            balanceCents = JUndefined, retryAfter = JUndefined\<rparr>
   \<and> JStr ''Not Found'' \<noteq> JStr (''API error (status '' @ show_int 404 @ '')'')"
  by (simp add: eval_defs run_defs show_int_def show_nat.simps digit_def)

text \<open>
  C5, amended. \<open>raiseForStatus\<close> throws a classified error for every status and every
  body, also an absent or an empty one: for a body without an \<open>error\<close> property the
  message is "API error (status <status>)" and the code is "unknown". When the body of
  an error response cannot be parsed, \<open>request\<close> hands \<open>raiseForStatus\<close> the body
  \<open>{ error: { message: response.statusText } }\<close>: the message of the error thrown is
  the status text of the response, its code is "unknown" and its status code is the
  status of the response.
\<close>

theorem unparsable_body_classification:
  "(get_prop b ''error'' = JUndefined \<longrightarrow>
      message (raiseForStatus st b) = JStr (''API error (status '' @ show_int st @ '')'')
      \<and> code (raiseForStatus st b) = JStr ''unknown'')
   \<and> (json_result r = Inl err \<and> \<not> ok r \<and> request_attempt c a (Resolved r) = Throw e \<longrightarrow>
      message e = JStr (statusText r) \<and> code e = JStr ''unknown'' \<and> statusCode e = status r
      \<and> body e = JObj [(''error'', JObj [(''message'', JStr (statusText r))])])"
proof -
  have absent: "message (raiseForStatus st b) = JStr (''API error (status '' @ show_int st @ '')'')
      \<and> code (raiseForStatus st b) = JStr ''unknown''"
    if "get_prop b ''error'' = JUndefined"
    using that by (simp add: message_raiseForStatus code_raiseForStatus coalesce_def nullish_def)
  have unparsable: "message e = JStr (statusText r) \<and> code e = JStr ''unknown''
      \<and> statusCode e = status r
      \<and> body e = JObj [(''error'', JObj [(''message'', JStr (statusText r))])]"
    if h: "json_result r = Inl err \<and> \<not> ok r \<and> request_attempt c a (Resolved r) = Throw e"
  proof -
    from h have e: "e = raiseForStatus (status r) (error_body r)"
      by (auto simp: request_attempt_def split: if_splits)
    have eb: "error_body r = JObj [(''error'', JObj [(''message'', JStr (statusText r))])]"
      using h by (simp add: error_body_def)
    show ?thesis
      by (simp add: e eb message_raiseForStatus code_raiseForStatus statusCode_raiseForStatus
          body_raiseForStatus coalesce_def nullish_def)
  qed
  show ?thesis using absent unparsable by blast
qed

text \<open>
  The call \<open>raiseForStatus(400, {})\<close> of the test "handles missing error body
  gracefully", and a 502 whose body is not JSON on a client without retries.
\<close>

theorem unparsable_body_classification_witness:
  "message (raiseForStatus 400 (JObj [])) = JStr ''API error (status 400)''
   \<and> code (raiseForStatus 400 (JObj [])) = JStr ''unknown''
   \<and> request_attempt (createClient 0) 0 (Resolved (unparsable_response 502 ''Bad Gateway''))
       = Throw \<lparr>cls = LeanvoxError, message = JStr ''Bad Gateway'', code = JStr ''unknown'',
            statusCode = 502,
            body = JObj [(''error'', JObj [(''message'', JStr ''Bad Gateway'')])],
            balanceCents = JUndefined, retryAfter = JUndefined\<rparr>"
  using unparsable_body_classification [of "JObj []" 400 "unparsable_response 502 ''Bad Gateway''"
      "''Unexpected token < in JSON at position 0''" "createClient 0" 0
      "raiseForStatus 502 (error_body (unparsable_response 502 ''Bad Gateway''))"]
  by (simp add: eval_defs run_defs show_int_def show_nat.simps digit_def)

section \<open>The deadline of an attempt\<close>

text \<open>
  C10. Without a \<open>timeoutMs\<close> override, every attempt of \<open>requestStream\<close> is sent with
  the deadline 120000 ms, whatever the client's \<open>timeout\<close>; every attempt of \<open>request\<close>
  and of \<open>upload\<close> is sent with the deadline \<open>timeout * 1000\<close> ms.
\<close>

theorem deadline_of_each_attempt:
  "(\<forall>rq. Fetch rq \<in> set (snd (requestStream c net m p b None)) \<longrightarrow> req_timeoutMs rq = 120000)
   \<and> (\<forall>rq. Fetch rq \<in> set (snd (request c net m p b None))
          \<longrightarrow> req_timeoutMs rq = timeout c * 1000)
   \<and> (\<forall>rq. Fetch rq \<in> set (snd (upload c net p formData None))
          \<longrightarrow> req_timeoutMs rq = timeout c * 1000)"
proof (intro conjI allI impI)
  fix rq assume "Fetch rq \<in> set (snd (requestStream c net m p b None))"
  then have "rq = stream_fetch c m p b None"
    unfolding requestStream_def by (rule fetch_events_same)
  then show "req_timeoutMs rq = 120000" by (simp add: stream_fetch_def)
next
  fix rq assume "Fetch rq \<in> set (snd (request c net m p b None))"
  then have "rq = unary_fetch c m p b None"
    unfolding request_def by (rule fetch_events_same)
  then show "req_timeoutMs rq = timeout c * 1000" by (simp add: unary_fetch_def)
next
  fix rq assume "Fetch rq \<in> set (snd (upload c net p formData None))"
  then have "rq = upload_fetch c p formData None"
    unfolding upload_def by (rule fetch_events_same)
  then show "req_timeoutMs rq = timeout c * 1000" by (simp add: upload_fetch_def)
qed

text \<open>
  On the test client, whose \<open>timeout\<close> is 30 seconds, the one attempt of
  \<open>requestStream\<close> has the deadline 120000 ms and those of \<open>request\<close> and \<open>upload\<close> have
  30000 ms.
\<close>

theorem deadline_of_each_attempt_witness:
  "snd (requestStream (createClient 0)
      (scripted [] (Resolved (json_response 404 ''Not Found'' Map.empty (JObj []))))
      ''POST'' [JStr ''/v1/tts/stream''] None None)
     = [Fetch \<lparr>req_method = ''POST'', req_path = [JStr ''/v1/tts/stream''], req_payload = NoBody,
               req_timeoutMs = 120000\<rparr>]
   \<and> snd (request (createClient 0)
      (scripted [] (Resolved (json_response 404 ''Not Found'' Map.empty (JObj []))))
      ''POST'' [JStr ''/v1/tts/stream''] None None)
     = [Fetch \<lparr>req_method = ''POST'', req_path = [JStr ''/v1/tts/stream''], req_payload = NoBody,
               req_timeoutMs = 30000\<rparr>]
   \<and> snd (upload (createClient 0)
      (scripted [] (Resolved (json_response 404 ''Not Found'' Map.empty (JObj []))))
      [JStr ''/v1/tts/stream''] [] None)
     = [Fetch \<lparr>req_method = ''POST'', req_path = [JStr ''/v1/tts/stream''],
               req_payload = FormData [], req_timeoutMs = 30000\<rparr>]"
  using deadline_of_each_attempt [of "createClient 0"
      "scripted [] (Resolved (json_response 404 ''Not Found'' Map.empty (JObj [])))"
      "''POST''" "[JStr ''/v1/tts/stream'']" None "[]"]
  by (simp add: eval_defs run_defs)

section \<open>The job poller\<close>

lemma polls_to_poll:
  "polls_to c net k job current \<Longrightarrow> poll c net k job = Some (Inr current) \<and> terminal current"
proof (induction rule: polls_to.induct)
  case (arrived job c net k)
  then show ?case by (subst poll.simps) simp
next
  case (polled job c net k j k' current)
  then show ?case by (subst poll.simps) simp
qed

text \<open>A poll loop that returns a job returns a terminal one.\<close>

lemma poll_Some_terminal:
  assumes "poll c net k job = Some y"
  shows "\<forall>current. y = Inr current \<longrightarrow> terminal current"
proof (rule poll.raw_induct
    [where P = "\<lambda>c net k job y. \<forall>current. y = Inr current \<longrightarrow> terminal current", OF _ assms])
  fix poll' c net k current y
  assume IH: "\<And>c net k job y. poll' c net k job = Some y
                 \<Longrightarrow> \<forall>current. y = Inr current \<longrightarrow> terminal current"
    and step: "(if \<not> terminal current
                then case getJob c net k (job_id current) of
                       (Inl e, k') \<Rightarrow> Some (Inl e)
                     | (Inr j, k') \<Rightarrow> poll' c net k' j
                else Some (Inr current)) = Some y"
  show "\<forall>cur. y = Inr cur \<longrightarrow> terminal cur"
  proof (cases "terminal current")
    case True
    with step show ?thesis by auto
  next
    case False
    with step IH show ?thesis
      by (auto split: prod.splits sum.splits)
  qed
qed

lemmas client_defs =
  generateAsync_def getJob_def http_request_def validateGenerateParams_def
  buildGenerateBody_def body_tail_def model_or_standard_def truthy_def text_only_def
  mapJob_def job_json_def terminal_def

text \<open>
  C9. When the submitted job reaches a terminal state \<open>current\<close> (after finitely many
  polls that each return a job), \<open>generateAsyncAndPoll\<close> returns, and \<open>current\<close> is
  failed or completed. If it is failed, the call throws an \<open>InvalidRequestError\<close>
  whose message is the job's \<open>error\<close>, or "Async job failed" when the job has none. If
  it is completed, the call returns the result whose \<open>audioUrl\<close> is the job's (the empty
  string when the job has none), whose \<open>model\<close> (by default "standard"), \<open>voice\<close> (by
  default empty) and \<open>characters\<close> (the length of the text) come from the options of
  the call, and whose \<open>costCents\<close> is 0.
\<close>

theorem generateAsyncAndPoll_terminal:
  assumes submit: "generateAsync c net 0 options = (Inr job, k)"
    and reach: "polls_to c net k job current"
  shows "(job_status current = JStr ''failed'' \<or> job_status current = JStr ''completed'')
       \<and> generateAsyncAndPoll c net options =
           Some (if job_status current = JStr ''failed'' then
                   Inl (Leanvox
                     \<lparr>cls = InvalidRequestError,
                      message = coalesce (job_error current) (JStr ''Async job failed''),
                      code = JStr ''invalid_request'', statusCode = 400, body = JUndefined,
                      balanceCents = JUndefined, retryAfter = JUndefined\<rparr>)
                 else
                   Inr \<lparr>audioUrl = coalesce (job_audioUrl current) (JStr []),
                        model = JStr (case opt_model options of None \<Rightarrow> ''standard'' | Some m \<Rightarrow> m),
                        voice = JStr (case opt_voice options of None \<Rightarrow> [] | Some v \<Rightarrow> v),
                        characters = JNum (real (length (opt_text options))),
                        costCents = JNum 0,
                        generatedVoiceId = JUndefined, suggestion = JUndefined\<rparr>)"
proof -
  have p: "poll c net k job = Some (Inr current)" and "terminal current"
    using polls_to_poll [OF reach] by simp_all
  then have t: "job_status current = JStr ''failed'' \<or> job_status current = JStr ''completed''"
    by (auto simp: terminal_def)
  show ?thesis
    using t submit p
    by (simp add: generateAsyncAndPoll_def makeResult_def model_or_standard_def
        new_InvalidRequestError_def new_LeanvoxError_def default_arg_def)
qed

text \<open>
  The runs of the specification's poller tests, on a text of 20 characters: the job is
  pending when submitted, and the first poll finds it completed with an audio URL, or
  failed with the error "bad text", or failed without an error.
\<close>

theorem generateAsyncAndPoll_terminal_witness:
  "generateAsyncAndPoll (createClient 2)
     (scripted [Resolved (json_response 200 ''OK'' Map.empty
                  (job_json ''pending'' [(''estimated_seconds'', JNum 5)]))]
        (Resolved (json_response 200 ''OK'' Map.empty
           (job_json ''completed'' [(''audio_url'', JStr ''https://cdn.leanvox.com/long.mp3'')]))))
     (text_only ''xxxxxxxxxxxxxxxxxxxx'')
   = Some (Inr \<lparr>audioUrl = JStr ''https://cdn.leanvox.com/long.mp3'',
                 model = JStr ''standard'', voice = JStr [], characters = JNum 20,
                 costCents = JNum 0, generatedVoiceId = JUndefined,
                 suggestion = JUndefined\<rparr>)
   \<and> generateAsyncAndPoll (createClient 2)
     (scripted [Resolved (json_response 200 ''OK'' Map.empty
                  (job_json ''pending'' [(''estimated_seconds'', JNum 5)]))]
        (Resolved (json_response 200 ''OK'' Map.empty
           (job_json ''failed'' [(''error'', JStr ''bad text'')]))))
     (text_only ''xxxxxxxxxxxxxxxxxxxx'')
   = Some (Inl (Leanvox \<lparr>cls = InvalidRequestError, message = JStr ''bad text'',
                 code = JStr ''invalid_request'', statusCode = 400, body = JUndefined,
                 balanceCents = JUndefined, retryAfter = JUndefined\<rparr>))
   \<and> generateAsyncAndPoll (createClient 2)
     (scripted [Resolved (json_response 200 ''OK'' Map.empty
                  (job_json ''pending'' [(''estimated_seconds'', JNum 5)]))]
        (Resolved (json_response 200 ''OK'' Map.empty (job_json ''failed'' []))))
     (text_only ''xxxxxxxxxxxxxxxxxxxx'')
   = Some (Inl (Leanvox \<lparr>cls = InvalidRequestError, message = JStr ''Async job failed'',
                 code = JStr ''invalid_request'', statusCode = 400, body = JUndefined,
                 balanceCents = JUndefined, retryAfter = JUndefined\<rparr>))"
proof -
  let ?c = "createClient 2"
  let ?opts = "text_only ''xxxxxxxxxxxxxxxxxxxx''"
  let ?pending = "Resolved (json_response 200 ''OK'' Map.empty
                    (job_json ''pending'' [(''estimated_seconds'', JNum 5)]))"
  let ?job0 = "\<lparr>job_id = JStr ''job_auto'', job_status = JStr ''pending'',
                job_estimatedSeconds = JNum 5, job_audioUrl = JUndefined,
                job_error = JUndefined\<rparr>"
  have run: "generateAsync ?c (scripted [?pending] (Resolved (json_response 200 ''OK'' Map.empty
                 (job_json st kvs)))) 0 ?opts = (Inr ?job0, 1)
             \<and> polls_to ?c (scripted [?pending] (Resolved (json_response 200 ''OK'' Map.empty
                 (job_json st kvs)))) 1 ?job0
                 \<lparr>job_id = JStr ''job_auto'', job_status = JStr st,
                  job_estimatedSeconds = get_prop (job_json st kvs) ''estimated_seconds'',
                  job_audioUrl = get_prop (job_json st kvs) ''audio_url'',
                  job_error = get_prop (job_json st kvs) ''error''\<rparr>"
    if st: "st = ''completed'' \<or> st = ''failed''" for st kvs
  proof
    let ?net = "scripted [?pending] (Resolved (json_response 200 ''OK'' Map.empty
                 (job_json st kvs)))"
    let ?job1 = "\<lparr>job_id = JStr ''job_auto'', job_status = JStr st,
                  job_estimatedSeconds = get_prop (job_json st kvs) ''estimated_seconds'',
                  job_audioUrl = get_prop (job_json st kvs) ''audio_url'',
                  job_error = get_prop (job_json st kvs) ''error''\<rparr>"
    show "generateAsync ?c ?net 0 ?opts = (Inr ?job0, 1)"
      by (simp add: client_defs eval_defs run_defs)
    have get: "getJob ?c ?net 1 (job_id ?job0) = (Inr ?job1, 2)"
      by (simp add: client_defs eval_defs run_defs)
    have pending: "\<not> terminal ?job0" by (simp add: terminal_def)
    have reached: "terminal ?job1" using st by (auto simp: terminal_def)
    show "polls_to ?c ?net 1 ?job0 ?job1"
      using polls_to.polled [OF pending get polls_to.arrived [OF reached]] .
  qed
  have completed: "''completed'' = ''completed'' \<or> ''completed'' = ''failed''" by simp
  have failed: "''failed'' = ''completed'' \<or> ''failed'' = ''failed''" by simp
  note r1 = run [OF completed, of "[(''audio_url'', JStr ''https://cdn.leanvox.com/long.mp3'')]"]
  note r2 = run [OF failed, of "[(''error'', JStr ''bad text'')]"]
  note r3 = run [OF failed, of "[]"]
  from generateAsyncAndPoll_terminal [OF r1 [THEN conjunct1] r1 [THEN conjunct2]]
    generateAsyncAndPoll_terminal [OF r2 [THEN conjunct1] r2 [THEN conjunct2]]
    generateAsyncAndPoll_terminal [OF r3 [THEN conjunct1] r3 [THEN conjunct2]]
  show ?thesis
    by (simp add: job_json_def text_only_def coalesce_def nullish_def)
qed

end
